theory Spec2Isabelle
  imports Main "HOL-Library.Sublist"
begin

section \<open>Python values the handlers compute with\<close>

text \<open>
  The bot is one Python module, \<^verbatim>\<open>bot.py\<close>: three module-level collections
  (\<^verbatim>\<open>ADMINS\<close>, \<^verbatim>\<open>MODERATORS\<close>, \<^verbatim>\<open>COMMANDS\<close>) and six handlers that read and
  mutate them. A character is an 8-bit \<^typ>\<open>char\<close>, read as the code point of the same
  number; text with code points from 256 on is outside the model. Every literal of the
  source is ASCII.
\<close>

datatype py_error = ValueError | IndexError

text \<open>
  The code points below 256 that \<^verbatim>\<open>str.split()\<close> takes for white space: tab, line
  feed, vertical tab, form feed, carriage return, the four separators \<^verbatim>\<open>0x1c\<close> to
  \<^verbatim>\<open>0x1f\<close>, space, \<^verbatim>\<open>0x85\<close> and \<^verbatim>\<open>0xa0\<close>.
\<close>

definition py_isspace :: "char \<Rightarrow> bool" where
  "py_isspace c = ((of_char c :: nat) \<in> set [9, 10, 11, 12, 13, 28, 29, 30, 31, 32, 133, 160])"

text \<open>\<^verbatim>\<open>s.split()\<close>: the maximal runs of characters that are not white space, in order.\<close>

fun split_ws :: "string \<Rightarrow> string \<Rightarrow> string list" where
  "split_ws w [] = (if w = [] then [] else [w])"
| "split_ws w (c # cs) =
     (if py_isspace c then (if w = [] then split_ws [] cs else w # split_ws [] cs)
      else split_ws (w @ [c]) cs)"

definition py_split :: "string \<Rightarrow> string list" where
  "py_split s = split_ws [] s"

text \<open>\<^verbatim>\<open>sep.join(xs)\<close>.\<close>

fun py_join :: "string \<Rightarrow> string list \<Rightarrow> string" where
  "py_join sep [] = []"
| "py_join sep [x] = x"
| "py_join sep (x # y # ys) = x @ sep @ py_join sep (y # ys)"

text \<open>
  \<^verbatim>\<open>int(s)\<close> on a string, base ten: white space around the literal is dropped, one sign
  may lead, and the digits may be separated by single underscores. Anything else raises
  \<^verbatim>\<open>ValueError\<close>. The white space \<^verbatim>\<open>int\<close> drops is narrower than that of
  \<^verbatim>\<open>str.split()\<close>: tab, line feed, vertical tab, form feed, carriage return, space,
  \<^verbatim>\<open>0x85\<close> and \<^verbatim>\<open>0xa0\<close>, but not the separators \<^verbatim>\<open>0x1c\<close> to \<^verbatim>\<open>0x1f\<close>, so
  \<^verbatim>\<open>int('\x1e999')\<close> raises. (CPython also refuses literals of more than 4300 digits; a
  chat message is shorter than that, so the limit is never met and is not modelled.)
\<close>

definition int_isspace :: "char \<Rightarrow> bool" where
  "int_isspace c = ((of_char c :: nat) \<in> set [9, 10, 11, 12, 13, 32, 133, 160])"

definition is_digit :: "char \<Rightarrow> bool" where
  "is_digit c = (48 \<le> (of_char c :: nat) \<and> (of_char c :: nat) \<le> 57)"

definition int_strip :: "string \<Rightarrow> string" where
  "int_strip s = rev (dropWhile int_isspace (rev (dropWhile int_isspace s)))"

fun digit_groups :: "string \<Rightarrow> bool" where
  "digit_groups [] = False"
| "digit_groups [c] = is_digit c"
| "digit_groups (c # d # r) =
     (is_digit c \<and> (if d = CHR ''_'' then digit_groups r else digit_groups (d # r)))"

definition digits_value :: "string \<Rightarrow> int" where
  "digits_value ds = foldl (\<lambda>acc c. 10 * acc + int (of_char c - 48)) 0 ds"

definition py_int :: "string \<Rightarrow> py_error + int" where
  "py_int s =
     (case int_strip s of
        [] \<Rightarrow> Inl ValueError
      | c # r \<Rightarrow>
          (let body = (if c = CHR ''-'' \<or> c = CHR ''+'' then r else c # r) in
           if digit_groups body
           then (let v = digits_value (filter (\<lambda>x. x \<noteq> CHR ''_'') body)
                 in Inr (if c = CHR ''-'' then - v else v))
           else Inl ValueError))"

text \<open>\<^verbatim>\<open>str(n)\<close> for an integer, which is what an f-string writes for \<^verbatim>\<open>{n}\<close>.\<close>

fun nat_digits :: "nat \<Rightarrow> string" where
  "nat_digits n =
     (if n < 10 then [char_of (48 + n)]
      else nat_digits (n div 10) @ [char_of (48 + n mod 10)])"

declare nat_digits.simps [simp del]

definition py_str :: "int \<Rightarrow> string" where
  "py_str i = (if i < 0 then CHR ''-'' # nat_digits (nat (- i)) else nat_digits (nat i))"

text \<open>
  A \<^verbatim>\<open>dict\<close> keeps its keys in insertion order: an association list with distinct keys.
  \<^verbatim>\<open>d.get(k)\<close>, \<^verbatim>\<open>k in d\<close>, \<^verbatim>\<open>d[k] = v\<close> (an existing key keeps its place, a new key goes
  to the end) and \<^verbatim>\<open>del d[k]\<close>.
\<close>

fun dict_get :: "('k \<times> 'v) list \<Rightarrow> 'k \<Rightarrow> 'v option" where
  "dict_get [] k = None"
| "dict_get ((k', v') # d) k = (if k' = k then Some v' else dict_get d k)"

definition dict_contains :: "('k \<times> 'v) list \<Rightarrow> 'k \<Rightarrow> bool" where
  "dict_contains d k = (dict_get d k \<noteq> None)"

fun dict_set :: "('k \<times> 'v) list \<Rightarrow> 'k \<Rightarrow> 'v \<Rightarrow> ('k \<times> 'v) list" where
  "dict_set [] k v = [(k, v)]"
| "dict_set ((k', v') # d) k v =
     (if k' = k then (k', v) # d else (k', v') # dict_set d k v)"

fun dict_del :: "('k \<times> 'v) list \<Rightarrow> 'k \<Rightarrow> ('k \<times> 'v) list" where
  "dict_del [] k = []"
| "dict_del ((k', v') # d) k = (if k' = k then d else (k', v') # dict_del d k)"

section \<open>The bot's state, its inputs and what a handler does\<close>

text \<open>
  The three globals, as \<^verbatim>\<open>json.load\<close> leaves them: two lists of user ids and the table
  of custom commands.
\<close>

record bot_state =
  ADMINS :: "int list"
  MODERATORS :: "int list"
  COMMANDS :: "(string \<times> string) list"

text \<open>What a handler reads from its \<^verbatim>\<open>update\<close>; \<^verbatim>\<open>context.args\<close> is a separate argument.\<close>

record update =
  effective_user_id :: int
  effective_chat_id :: int
  message_id :: int
  message_text :: string

text \<open>
  Everything a handler does to the world, in the order it does it: replies, messages sent
  and deleted through the bot, files rewritten with \<^verbatim>\<open>json.dump\<close>, and log records. The
  transport and the file system are taken to accept each call.
\<close>

datatype json_doc = IdList "int list" | CommandMap "(string \<times> string) list"

datatype effect =
    ReplyText string
  | SendMessage int string
  | DeleteMessage int int
  | JsonDump string json_doc
  | LogInfo string
  | LogWarning string

text \<open>
  A handler returns or raises; either way the globals and the effects so far stay as
  they are at that moment.
\<close>

datatype outcome =
    Returned bot_state "effect list"
  | Raised py_error bot_state "effect list"

fun state_of :: "outcome \<Rightarrow> bot_state" where
  "state_of (Returned s es) = s"
| "state_of (Raised e s es) = s"

fun effects_of :: "outcome \<Rightarrow> effect list" where
  "effects_of (Returned s es) = es"
| "effects_of (Raised e s es) = es"

fun to_chat :: "effect \<Rightarrow> bool" where
  "to_chat (ReplyText t) = True"
| "to_chat (SendMessage c t) = True"
| "to_chat (DeleteMessage c m) = True"
| "to_chat (JsonDump f d) = False"
| "to_chat (LogInfo t) = False"
| "to_chat (LogWarning t) = False"

fun is_persist :: "effect \<Rightarrow> bool" where
  "is_persist (JsonDump f d) = True"
| "is_persist (ReplyText t) = False"
| "is_persist (SendMessage c t) = False"
| "is_persist (DeleteMessage c m) = False"
| "is_persist (LogInfo t) = False"
| "is_persist (LogWarning t) = False"

section \<open>The handlers\<close>

definition is_admin :: "bot_state \<Rightarrow> int \<Rightarrow> bool" where
  "is_admin s user_id = (user_id \<in> set (ADMINS s))"

definition is_moderator :: "bot_state \<Rightarrow> int \<Rightarrow> bool" where
  "is_moderator s user_id = (user_id \<in> set (MODERATORS s))"

text \<open>
  \<^verbatim>\<open>handle_command\<close>: the first word of the text is taken before the sender is checked, so
  a text with no word raises \<^verbatim>\<open>IndexError\<close>. \<^verbatim>\<open>if response:\<close> is false for a missing key
  and for an empty response alike.
\<close>

definition handle_command :: "bot_state \<Rightarrow> update \<Rightarrow> outcome" where
  "handle_command s u =
     (let user_id = effective_user_id u in
      case py_split (message_text u) of
        [] \<Rightarrow> Raised IndexError s []
      | command # _ \<Rightarrow>
          if is_admin s user_id \<or> is_moderator s user_id then
            (case dict_get (COMMANDS s) command of
               None \<Rightarrow> Returned s []
             | Some response \<Rightarrow>
                 if response \<noteq> [] then
                   Returned s
                     [SendMessage (effective_chat_id u) response,
                      DeleteMessage (effective_chat_id u) (message_id u),
                      LogInfo (''Command '' @ command @ '' executed by user '' @ py_str user_id)]
                 else Returned s [])
          else
            Returned s [LogWarning (''Unauthorized command attempt by user '' @ py_str user_id)])"

definition add_command :: "bot_state \<Rightarrow> update \<Rightarrow> string list \<Rightarrow> outcome" where
  "add_command s u args =
     (let user_id = effective_user_id u in
      if \<not> is_admin s user_id then
        Returned s [LogWarning (''Unauthorized add_command attempt by user '' @ py_str user_id)]
      else if length args < 2 then
        Returned s [ReplyText ''Usage: /add_command <command> <response>'']
      else
        (let command = args ! 0;
             response = py_join '' '' (drop 1 args);
             s' = s\<lparr>COMMANDS := dict_set (COMMANDS s) command response\<rparr>
         in Returned s'
              [JsonDump ''commands.json'' (CommandMap (COMMANDS s')),
               ReplyText (''Command '' @ command @ '' added.''),
               LogInfo (''Command '' @ command @ '' added by admin '' @ py_str user_id)]))"

definition remove_command :: "bot_state \<Rightarrow> update \<Rightarrow> string list \<Rightarrow> outcome" where
  "remove_command s u args =
     (let user_id = effective_user_id u in
      if \<not> is_admin s user_id then
        Returned s [LogWarning (''Unauthorized remove_command attempt by user '' @ py_str user_id)]
      else if length args \<noteq> 1 then
        Returned s [ReplyText ''Usage: /remove_command <command>'']
      else
        (let command = args ! 0 in
         if dict_contains (COMMANDS s) command then
           (let s' = s\<lparr>COMMANDS := dict_del (COMMANDS s) command\<rparr>
            in Returned s'
                 [JsonDump ''commands.json'' (CommandMap (COMMANDS s')),
                  ReplyText (''Command '' @ command @ '' removed.''),
                  LogInfo (''Command '' @ command @ '' removed by admin '' @ py_str user_id)])
         else
           Returned s [ReplyText (''Command '' @ command @ '' does not exist.'')]))"

text \<open>
  \<^verbatim>\<open>list_commands\<close> (the \<^verbatim>\<open>/help\<close> handler): four fixed lines, then the table, one
  line per entry in the order of \<^verbatim>\<open>COMMANDS.items()\<close>.
\<close>

definition builtin_help :: "string list" where
  "builtin_help =
     [''/add_command <command> <response> - Add a new command (Admins only)'',
      ''/remove_command <command> - Remove an existing command (Admins only)'',
      ''/assign <admin|moderator> <add|remove> <user_id> - Assign roles (Admins only)'',
      ''/help - Show this help message'']"

definition custom_line :: "string \<times> string \<Rightarrow> string" where
  "custom_line e = fst e @ '' - '' @ snd e"

definition help_text :: "(string \<times> string) list \<Rightarrow> string" where
  "help_text cmds =
     ''Available commands:\<newline>'' @
     py_join ''\<newline>''
       (builtin_help @
        [''Custom Commands:\<newline>'' @ py_join ''\<newline>'' (map custom_line cmds)])"

definition list_commands :: "bot_state \<Rightarrow> update \<Rightarrow> outcome" where
  "list_commands s u =
     (let user_id = effective_user_id u in
      if is_admin s user_id \<or> is_moderator s user_id then
        Returned s
          [ReplyText (help_text (COMMANDS s)),
           LogInfo (''Command list requested by user '' @ py_str user_id)]
      else
        Returned s [LogWarning (''Unauthorized help command attempt by user '' @ py_str user_id)])"

text \<open>\<^verbatim>\<open>view_roles\<close>: \<^verbatim>\<open>x or "No admins."\<close> takes the marker when the joined text is empty.\<close>

definition roles_text :: "int list \<Rightarrow> string \<Rightarrow> string" where
  "roles_text ids none =
     (let t = py_join ''\<newline>'' (map py_str ids) in if t = [] then none else t)"

definition view_roles :: "bot_state \<Rightarrow> update \<Rightarrow> outcome" where
  "view_roles s u =
     (let user_id = effective_user_id u in
      if is_admin s user_id then
        Returned s
          [ReplyText (''Admins:\<newline>'' @ roles_text (ADMINS s) ''No admins.'' @
                      ''\<newline>\<newline>'' @
                      ''Moderators:\<newline>'' @ roles_text (MODERATORS s) ''No moderators.''),
           LogInfo (''Roles list requested by user '' @ py_str user_id)]
      else
        Returned s
          [LogWarning (''Unauthorized view_roles command attempt by user '' @ py_str user_id)])"

text \<open>
  \<^verbatim>\<open>assign_role\<close>: the three arguments are read in one tuple assignment, so
  \<^verbatim>\<open>int(context.args[2])\<close> runs before the role and the action are looked at, and its
  \<^verbatim>\<open>ValueError\<close> leaves the handler: there is no \<^verbatim>\<open>try\<close> in the module.
  \<^verbatim>\<open>xs.append(x)\<close> adds at the end, \<^verbatim>\<open>xs.remove(x)\<close> takes the first occurrence out.
\<close>

definition invalid_action :: string where
  \<open>invalid_action = ''Invalid action. Use "add" or "remove".''\<close>

definition invalid_role :: string where
  \<open>invalid_role = ''Invalid role. Use "admin" or "moderator".''\<close>

definition assign_role :: "bot_state \<Rightarrow> update \<Rightarrow> string list \<Rightarrow> outcome" where
  "assign_role s u args =
     (let user_id = effective_user_id u in
      if \<not> is_admin s user_id then
        Returned s [LogWarning (''Unauthorized assign_role attempt by user '' @ py_str user_id)]
      else if length args \<noteq> 3 then
        Returned s [ReplyText ''Usage: /assign <admin|moderator> <add|remove> <user_id>'']
      else
        (case py_int (args ! 2) of
           Inl e \<Rightarrow> Raised e s []
         | Inr target_id \<Rightarrow>
             (let role = args ! 0; action = args ! 1 in
              if role = ''admin'' then
                (if action = ''add'' then
                   (if target_id \<notin> set (ADMINS s) then
                      (let s' = s\<lparr>ADMINS := ADMINS s @ [target_id]\<rparr>
                       in Returned s'
                            [JsonDump ''admins.json'' (IdList (ADMINS s')),
                             ReplyText (''User '' @ py_str target_id @ '' added as admin.''),
                             LogInfo (''User '' @ py_str target_id @ '' added as admin by '' @
                                      py_str user_id)])
                    else
                      Returned s
                        [ReplyText (''User '' @ py_str target_id @ '' is already an admin.'')])
                 else if action = ''remove'' then
                   (if target_id \<in> set (ADMINS s) then
                      (let s' = s\<lparr>ADMINS := remove1 target_id (ADMINS s)\<rparr>
                       in Returned s'
                            [JsonDump ''admins.json'' (IdList (ADMINS s')),
                             ReplyText (''User '' @ py_str target_id @ '' removed from admins.''),
                             LogInfo (''User '' @ py_str target_id @ '' removed from admins by '' @
                                      py_str user_id)])
                    else
                      Returned s
                        [ReplyText (''User '' @ py_str target_id @ '' is not an admin.'')])
                 else Returned s [ReplyText invalid_action])
              else if role = ''moderator'' then
                (if action = ''add'' then
                   (if target_id \<notin> set (MODERATORS s) then
                      (let s' = s\<lparr>MODERATORS := MODERATORS s @ [target_id]\<rparr>
                       in Returned s'
                            [JsonDump ''mods.json'' (IdList (MODERATORS s')),
                             ReplyText (''User '' @ py_str target_id @ '' added as moderator.''),
                             LogInfo (''User '' @ py_str target_id @ '' added as moderator by '' @
                                      py_str user_id)])
                    else
                      Returned s
                        [ReplyText (''User '' @ py_str target_id @ '' is already a moderator.'')])
                 else if action = ''remove'' then
                   (if target_id \<in> set (MODERATORS s) then
                      (let s' = s\<lparr>MODERATORS := remove1 target_id (MODERATORS s)\<rparr>
                       in Returned s'
                            [JsonDump ''mods.json'' (IdList (MODERATORS s')),
                             ReplyText (''User '' @ py_str target_id @ '' removed from moderators.''),
                             LogInfo (''User '' @ py_str target_id @
                                      '' removed from moderators by '' @ py_str user_id)])
                    else
                      Returned s
                        [ReplyText (''User '' @ py_str target_id @ '' is not a moderator.'')])
                 else Returned s [ReplyText invalid_action])
              else Returned s [ReplyText invalid_role])))"

section \<open>Observations and a sample deployment\<close>

text \<open>
  An outcome is silent for a state when the globals are still that state and nothing
  reached the chat or the disk: whatever effects there are, are log records.
\<close>

definition silent :: "bot_state \<Rightarrow> outcome \<Rightarrow> bool" where
  "silent s out =
     (state_of out = s \<and>
      list_all (\<lambda>e. \<not> to_chat e \<and> \<not> is_persist e) (effects_of out))"

text \<open>
  One administrator (111), one moderator (222) and one custom command, with a message
  from a given sender in chat 5.
\<close>

definition demo_state :: bot_state where
  "demo_state =
     \<lparr>ADMINS = [111], MODERATORS = [222], COMMANDS = [(''!greet'', ''Hello there'')]\<rparr>"

definition demo_update :: "int \<Rightarrow> string \<Rightarrow> update" where
  "demo_update sender txt =
     \<lparr>effective_user_id = sender, effective_chat_id = 5, message_id = 7, message_text = txt\<rparr>"

section \<open>Facts about the dictionary operations and the splitter\<close>

lemma dict_get_set_same: "dict_get (dict_set d k v) k = Some v"
  by (induction d) auto

lemma dict_get_set_other: "k' \<noteq> k \<Longrightarrow> dict_get (dict_set d k v) k' = dict_get d k'"
  by (induction d) auto

lemma dict_del_absent: "dict_get d k = None \<Longrightarrow> dict_del d k = d"
  by (induction d) (auto split: if_splits)

lemma dict_set_keys:
  "map fst (dict_set d k v) = (if k \<in> set (map fst d) then map fst d else map fst d @ [k])"
  by (induction d) force+

lemma dict_set_distinct: "distinct (map fst d) \<Longrightarrow> distinct (map fst (dict_set d k v))"
  by (simp add: dict_set_keys)

lemma split_ws_word:
  "\<forall>x \<in> set w. \<not> py_isspace x \<Longrightarrow> acc @ w \<noteq> [] \<Longrightarrow> py_isspace c \<Longrightarrow>
     split_ws acc (w @ c # t) = (acc @ w) # split_ws [] t"
  by (induction w arbitrary: acc) auto

lemma py_split_first_word:
  "w \<noteq> [] \<Longrightarrow> \<forall>x \<in> set w. \<not> py_isspace x \<Longrightarrow> py_isspace c \<Longrightarrow>
     py_split (w @ c # t) = w # py_split t"
  using split_ws_word [of w "[]" c t] by (simp add: py_split_def)

lemma py_int_separator_not_stripped:
  "py_int ([CHR 0x1E] @ ''999'') = Inl ValueError \<and>
   py_int ([CHR 0x1D] @ ''111'') = Inl ValueError \<and>
   py_int (''7'' @ [CHR 0x1F]) = Inl ValueError \<and>
   py_int ([CHR 0xA0] @ ''-1_0'' @ [CHR 0x85]) = Inr (- 10) \<and>
   py_int '' 0999 '' = Inr 999"
  by code_simp

lemma list_commands_authorized:
  "is_admin s (effective_user_id u) \<or> is_moderator s (effective_user_id u) \<Longrightarrow>
     list_commands s u =
       Returned s
         [ReplyText (help_text (COMMANDS s)),
          LogInfo (''Command list requested by user '' @ py_str (effective_user_id u))]"
  by (auto simp add: list_commands_def)

lemma assign_role_unparsable:
  "is_admin s (effective_user_id u) \<Longrightarrow> length args = 3 \<Longrightarrow> py_int (args ! 2) = Inl e \<Longrightarrow>
     assign_role s u args = Raised e s []"
  by (simp add: assign_role_def)

lemma assign_role_invalid_role:
  "is_admin s (effective_user_id u) \<Longrightarrow> py_int t = Inr n \<Longrightarrow>
   role \<noteq> ''admin'' \<Longrightarrow> role \<noteq> ''moderator'' \<Longrightarrow>
     assign_role s u [role, action, t] = Returned s [ReplyText invalid_role]"
  by (simp add: assign_role_def)

lemma assign_role_invalid_action:
  "is_admin s (effective_user_id u) \<Longrightarrow> py_int t = Inr n \<Longrightarrow>
   role = ''admin'' \<or> role = ''moderator'' \<Longrightarrow> action \<noteq> ''add'' \<Longrightarrow> action \<noteq> ''remove'' \<Longrightarrow>
     assign_role s u [role, action, t] = Returned s [ReplyText invalid_action]"
  by (auto simp add: assign_role_def)

section \<open>The claims\<close>

text \<open>
  C1. An administrator sends \<^verbatim>\<open>/assign admin add abc\<close>: three arguments, the third not a
  number. The handler does not answer with the usage line; \<^verbatim>\<open>int\<close> raises
  \<^verbatim>\<open>ValueError\<close> out of it, with nothing sent and nothing changed. The same happens when
  the role is invalid as well, because the identity is parsed before the role is looked
  at, so no rejection message naming the valid roles is sent either.
\<close>

theorem assign_role_malformed_identity_raises:
  "assign_role demo_state (demo_update 111 ''/assign admin add abc'')
       [''admin'', ''add'', ''abc''] = Raised ValueError demo_state [] \<and>
   assign_role demo_state (demo_update 111 ''/assign owner add abc'')
       [''owner'', ''add'', ''abc''] = Raised ValueError demo_state []"
  by code_simp

text \<open>
  C2. The moderator of the sample deployment asks for \<^verbatim>\<open>/help\<close>. The reply describes
  four built-in commands and then the table in its order; \<^verbatim>\<open>/view_roles\<close>, the fifth
  built-in command, is not mentioned anywhere in it.
\<close>

theorem list_commands_omits_view_roles:
  "list_commands demo_state (demo_update 222 ''/help'') =
     Returned demo_state
       [ReplyText
          (''Available commands:\<newline>'' @
           ''/add_command <command> <response> - Add a new command (Admins only)\<newline>'' @
           ''/remove_command <command> - Remove an existing command (Admins only)\<newline>'' @
           ''/assign <admin|moderator> <add|remove> <user_id> - Assign roles (Admins only)\<newline>'' @
           ''/help - Show this help message\<newline>'' @
           ''Custom Commands:\<newline>'' @
           ''!greet - Hello there''),
        LogInfo ''Command list requested by user 222''] \<and>
   \<not> sublist ''view_roles'' (help_text (COMMANDS demo_state))"
  by code_simp

text \<open>
  C3. When an administrator calls \<^verbatim>\<open>add_command\<close> with fewer than two arguments, the
  only effect is the usage reply and the state is unchanged. With two or more, the table
  afterwards maps the first argument to the other arguments joined with single spaces,
  whatever it held for that token before and with the same reply either way; every other
  token keeps its entry; the table is written to \<^verbatim>\<open>commands.json\<close>.
\<close>

theorem add_command_upsert:
  assumes "is_admin s (effective_user_id u)"
  shows "(length args < 2 \<longrightarrow>
            add_command s u args =
              Returned s [ReplyText ''Usage: /add_command <command> <response>'']) \<and>
         (2 \<le> length args \<longrightarrow>
            add_command s u args =
              Returned (s\<lparr>COMMANDS := dict_set (COMMANDS s) (args ! 0) (py_join '' '' (drop 1 args))\<rparr>)
                [JsonDump ''commands.json''
                   (CommandMap (dict_set (COMMANDS s) (args ! 0) (py_join '' '' (drop 1 args)))),
                 ReplyText (''Command '' @ args ! 0 @ '' added.''),
                 LogInfo (''Command '' @ args ! 0 @ '' added by admin '' @
                          py_str (effective_user_id u))] \<and>
            dict_get (dict_set (COMMANDS s) (args ! 0) (py_join '' '' (drop 1 args))) (args ! 0) =
              Some (py_join '' '' (drop 1 args)) \<and>
            (\<forall>k. k \<noteq> args ! 0 \<longrightarrow>
               dict_get (dict_set (COMMANDS s) (args ! 0) (py_join '' '' (drop 1 args))) k =
                 dict_get (COMMANDS s) k))"
  using assms
  by (simp add: add_command_def Let_def dict_get_set_same dict_get_set_other)

theorem add_command_upsert_witness:
  "is_admin demo_state (effective_user_id (demo_update 111 ''/add_command !greet'')) \<and>
   length [''!greet''] < 2 \<and>
   add_command demo_state (demo_update 111 ''/add_command !greet'') [''!greet''] =
     Returned demo_state [ReplyText ''Usage: /add_command <command> <response>''] \<and>
   (2::nat) \<le> length [''!greet'', ''Hi'', ''all''] \<and>
   add_command demo_state (demo_update 111 ''/add_command !greet'') [''!greet'', ''Hi'', ''all''] =
     Returned (demo_state\<lparr>COMMANDS := [(''!greet'', ''Hi all'')]\<rparr>)
       [JsonDump ''commands.json'' (CommandMap [(''!greet'', ''Hi all'')]),
        ReplyText ''Command !greet added.'',
        LogInfo ''Command !greet added by admin 111'']"
proof -
  have a: "is_admin demo_state (effective_user_id (demo_update 111 ''/add_command !greet''))"
    by (simp add: is_admin_def demo_state_def demo_update_def)
  have n: "py_str 111 = ''111''"
    by code_simp
  have c: "COMMANDS demo_state = [(''!greet'', ''Hello there'')]"
    by (simp add: demo_state_def)
  have e: "effective_user_id (demo_update 111 ''/add_command !greet'') = 111"
    by (simp add: demo_update_def)
  from add_command_upsert [OF a, of "[''!greet'']"]
       add_command_upsert [OF a, of "[''!greet'', ''Hi'', ''all'']"]
  show ?thesis
    using a by (simp add: n c e)
qed

text \<open>
  C4. An administrator asks to remove from a role a user who is not in it (the identity
  parses to a number). The handler returns the state as it was, admins and moderators both,
  writes no file, and its only effect is the reply that the user is not an admin, or not a
  moderator, with the number printed as \<^verbatim>\<open>str\<close> prints it. For \<^verbatim>\<open>/assign admin remove 999\<close>
  the reply is \<^verbatim>\<open>User 999 is not an admin.\<close>
\<close>

theorem assign_role_remove_absent:
  assumes "is_admin s (effective_user_id u)" and "py_int t = Inr target"
  shows "(target \<notin> set (ADMINS s) \<longrightarrow>
            assign_role s u [''admin'', ''remove'', t] =
              Returned s [ReplyText (''User '' @ py_str target @ '' is not an admin.'')]) \<and>
         (target \<notin> set (MODERATORS s) \<longrightarrow>
            assign_role s u [''moderator'', ''remove'', t] =
              Returned s [ReplyText (''User '' @ py_str target @ '' is not a moderator.'')])"
  using assms by (simp add: assign_role_def)

theorem assign_role_remove_absent_witness:
  "is_admin demo_state (effective_user_id (demo_update 111 ''/assign admin remove 999'')) \<and>
   py_int ''999'' = Inr 999 \<and>
   999 \<notin> set (ADMINS demo_state) \<and>
   999 \<notin> set (MODERATORS demo_state) \<and>
   assign_role demo_state (demo_update 111 ''/assign admin remove 999'')
       [''admin'', ''remove'', ''999''] =
     Returned demo_state [ReplyText ''User 999 is not an admin.''] \<and>
   assign_role demo_state (demo_update 111 ''/assign admin remove 999'')
       [''moderator'', ''remove'', ''999''] =
     Returned demo_state [ReplyText ''User 999 is not a moderator.'']"
proof -
  have a: "is_admin demo_state (effective_user_id (demo_update 111 ''/assign admin remove 999''))"
    by (simp add: is_admin_def demo_state_def demo_update_def)
  have p: "py_int ''999'' = Inr 999"
    by code_simp
  have n: "999 \<notin> set (ADMINS demo_state)" "999 \<notin> set (MODERATORS demo_state)"
    by (simp_all add: demo_state_def)
  have s: "py_str 999 = ''999''"
    by code_simp
  from assign_role_remove_absent [OF a p] n s show ?thesis
    using a p by simp
qed

text \<open>
  C5. An administrator asks to add to a role a user who is already in it (the identity
  parses to a number). The handler returns the state as it was, writes no file, and its
  only effect is the reply that the user is already an admin, or already a moderator.
\<close>

theorem assign_role_add_present:
  assumes "is_admin s (effective_user_id u)" and "py_int t = Inr target"
  shows "(target \<in> set (ADMINS s) \<longrightarrow>
            assign_role s u [''admin'', ''add'', t] =
              Returned s [ReplyText (''User '' @ py_str target @ '' is already an admin.'')]) \<and>
         (target \<in> set (MODERATORS s) \<longrightarrow>
            assign_role s u [''moderator'', ''add'', t] =
              Returned s [ReplyText (''User '' @ py_str target @ '' is already a moderator.'')])"
  using assms by (simp add: assign_role_def)

theorem assign_role_add_present_witness:
  "is_admin demo_state (effective_user_id (demo_update 111 ''/assign admin add 111'')) \<and>
   py_int ''111'' = Inr 111 \<and> py_int ''222'' = Inr 222 \<and>
   111 \<in> set (ADMINS demo_state) \<and>
   222 \<in> set (MODERATORS demo_state) \<and>
   assign_role demo_state (demo_update 111 ''/assign admin add 111'')
       [''admin'', ''add'', ''111''] =
     Returned demo_state [ReplyText ''User 111 is already an admin.''] \<and>
   assign_role demo_state (demo_update 111 ''/assign admin add 111'')
       [''moderator'', ''add'', ''222''] =
     Returned demo_state [ReplyText ''User 222 is already a moderator.'']"
proof -
  have a: "is_admin demo_state (effective_user_id (demo_update 111 ''/assign admin add 111''))"
    by (simp add: is_admin_def demo_state_def demo_update_def)
  have p: "py_int ''111'' = Inr 111" "py_int ''222'' = Inr 222"
    by code_simp+
  have n: "111 \<in> set (ADMINS demo_state)" "222 \<in> set (MODERATORS demo_state)"
    by (simp_all add: demo_state_def)
  have s: "py_str 111 = ''111''" "py_str 222 = ''222''"
    by code_simp+
  from assign_role_add_present [OF a p(1)] assign_role_add_present [OF a p(2)] n s
  show ?thesis
    using a p by simp
qed

text \<open>
  C6. An administrator calls \<^verbatim>\<open>remove_command\<close> with one argument that is not a key of the
  table. The handler returns the state as it was, writes no file, and its only effect is
  the reply that the command does not exist.
\<close>

theorem remove_command_unknown_token:
  assumes "is_admin s (effective_user_id u)" and "\<not> dict_contains (COMMANDS s) token"
  shows "remove_command s u [token] =
           Returned s [ReplyText (''Command '' @ token @ '' does not exist.'')]"
  using assms by (simp add: remove_command_def)

theorem remove_command_unknown_token_witness:
  "is_admin demo_state (effective_user_id (demo_update 111 ''/remove_command !bye'')) \<and>
   \<not> dict_contains (COMMANDS demo_state) ''!bye'' \<and>
   remove_command demo_state (demo_update 111 ''/remove_command !bye'') [''!bye''] =
     Returned demo_state [ReplyText ''Command !bye does not exist.'']"
proof -
  have a: "is_admin demo_state (effective_user_id (demo_update 111 ''/remove_command !bye''))"
    by (simp add: is_admin_def demo_state_def demo_update_def)
  have n: "\<not> dict_contains (COMMANDS demo_state) ''!bye''"
    by (simp add: dict_contains_def demo_state_def)
  from remove_command_unknown_token [OF a n] show ?thesis
    using a n by simp
qed

text \<open>
  C7. A sender who is not an administrator gets nothing from \<^verbatim>\<open>add_command\<close>,
  \<^verbatim>\<open>remove_command\<close>, \<^verbatim>\<open>assign_role\<close> and \<^verbatim>\<open>view_roles\<close>, whatever the arguments: the state
  is unchanged, nothing is sent to the chat and no file is written. A sender who is
  neither an administrator nor a moderator gets nothing from \<^verbatim>\<open>handle_command\<close> and
  \<^verbatim>\<open>list_commands\<close> either; for a text that has a first word, \<^verbatim>\<open>handle_command\<close> returns
  with a warning in the log as its only effect.
\<close>

theorem unauthorized_is_silent:
  "(\<not> is_admin s (effective_user_id u) \<longrightarrow>
      silent s (add_command s u args) \<and>
      silent s (remove_command s u args) \<and>
      silent s (assign_role s u args) \<and>
      silent s (view_roles s u)) \<and>
   (\<not> is_admin s (effective_user_id u) \<and> \<not> is_moderator s (effective_user_id u) \<longrightarrow>
      silent s (handle_command s u) \<and>
      silent s (list_commands s u) \<and>
      (py_split (message_text u) \<noteq> [] \<longrightarrow>
         handle_command s u =
           Returned s
             [LogWarning (''Unauthorized command attempt by user '' @
                          py_str (effective_user_id u))]))"
  by (auto simp add: silent_def add_command_def remove_command_def assign_role_def
        view_roles_def handle_command_def list_commands_def Let_def split: list.splits)

theorem unauthorized_is_silent_witness:
  "\<not> is_admin demo_state (effective_user_id (demo_update 333 ''!greet'')) \<and>
   \<not> is_moderator demo_state (effective_user_id (demo_update 333 ''!greet'')) \<and>
   py_split (message_text (demo_update 333 ''!greet'')) \<noteq> [] \<and>
   silent demo_state (add_command demo_state (demo_update 333 ''!greet'') [''!x'', ''y'']) \<and>
   silent demo_state (remove_command demo_state (demo_update 333 ''!greet'') [''!greet'']) \<and>
   silent demo_state (assign_role demo_state (demo_update 333 ''!greet'')
                        [''admin'', ''add'', ''333'']) \<and>
   silent demo_state (view_roles demo_state (demo_update 333 ''!greet'')) \<and>
   silent demo_state (list_commands demo_state (demo_update 333 ''!greet'')) \<and>
   handle_command demo_state (demo_update 333 ''!greet'') =
     Returned demo_state [LogWarning ''Unauthorized command attempt by user 333'']"
proof -
  have a: "\<not> is_admin demo_state (effective_user_id (demo_update 333 ''!greet''))"
    by (simp add: is_admin_def demo_state_def demo_update_def)
  have m: "\<not> is_moderator demo_state (effective_user_id (demo_update 333 ''!greet''))"
    by (simp add: is_moderator_def demo_state_def demo_update_def)
  have w: "py_split (message_text (demo_update 333 ''!greet'')) \<noteq> []"
    by (simp add: py_split_def py_isspace_def demo_update_def)
  have n: "py_str (effective_user_id (demo_update 333 ''!greet'')) = ''333''"
    by code_simp
  from unauthorized_is_silent [of demo_state "demo_update 333 ''!greet''" "[''!x'', ''y'']"]
       unauthorized_is_silent [of demo_state "demo_update 333 ''!greet''" "[''!greet'']"]
       unauthorized_is_silent [of demo_state "demo_update 333 ''!greet''"
                                  "[''admin'', ''add'', ''333'']"]
  show ?thesis
    using a m w n by simp
qed

text \<open>
  C8. Storing a response under a token and looking the token up in the result gives that
  response. In the handlers: after an administrator's \<^verbatim>\<open>add_command\<close> with two or more
  arguments, \<^verbatim>\<open>COMMANDS.get\<close> of the first argument is the joined rest, and when that is
  not empty \<^verbatim>\<open>handle_command\<close>, run in the new state for an administrator or moderator
  whose message starts with the token, sends it.
\<close>

theorem command_table_read_your_write:
  "dict_get (dict_set d token response) token = Some response \<and>
   (is_admin s (effective_user_id u) \<and> 2 \<le> length args \<longrightarrow>
      dict_get (COMMANDS (state_of (add_command s u args))) (args ! 0) =
        Some (py_join '' '' (drop 1 args)) \<and>
      ((is_admin s (effective_user_id v) \<or> is_moderator s (effective_user_id v)) \<and>
       py_split (message_text v) = args ! 0 # rest \<and>
       py_join '' '' (drop 1 args) \<noteq> [] \<longrightarrow>
         handle_command (state_of (add_command s u args)) v =
           Returned (state_of (add_command s u args))
             [SendMessage (effective_chat_id v) (py_join '' '' (drop 1 args)),
              DeleteMessage (effective_chat_id v) (message_id v),
              LogInfo (''Command '' @ args ! 0 @ '' executed by user '' @
                       py_str (effective_user_id v))]))"
  by (simp add: add_command_def handle_command_def is_admin_def is_moderator_def Let_def
        dict_get_set_same)

theorem command_table_read_your_write_witness:
  "is_admin demo_state (effective_user_id (demo_update 111 ''/add_command !rules Be kind'')) \<and>
   (2::nat) \<le> length [''!rules'', ''Be'', ''kind''] \<and>
   is_moderator demo_state (effective_user_id (demo_update 222 ''!rules please'')) \<and>
   py_split (message_text (demo_update 222 ''!rules please'')) = [''!rules'', ''please''] \<and>
   dict_get (dict_set (COMMANDS demo_state) ''!rules'' ''Be kind'') ''!rules'' = Some ''Be kind'' \<and>
   dict_get
     (COMMANDS (state_of (add_command demo_state (demo_update 111 ''/add_command !rules Be kind'')
                            [''!rules'', ''Be'', ''kind''])))
     ''!rules'' = Some ''Be kind'' \<and>
   effects_of
     (handle_command
        (state_of (add_command demo_state (demo_update 111 ''/add_command !rules Be kind'')
                     [''!rules'', ''Be'', ''kind'']))
        (demo_update 222 ''!rules please'')) =
     [SendMessage 5 ''Be kind'', DeleteMessage 5 7,
      LogInfo ''Command !rules executed by user 222'']"
proof -
  have a: "is_admin demo_state (effective_user_id (demo_update 111 ''/add_command !rules Be kind''))"
    by (simp add: is_admin_def demo_state_def demo_update_def)
  have m: "is_moderator demo_state (effective_user_id (demo_update 222 ''!rules please''))"
    by (simp add: is_moderator_def demo_state_def demo_update_def)
  have w: "py_split (message_text (demo_update 222 ''!rules please'')) = [''!rules'', ''please'']"
    by (simp add: py_split_def py_isspace_def demo_update_def)
  have n: "py_str (effective_user_id (demo_update 222 ''!rules please'')) = ''222''"
    by code_simp
  have f: "effective_chat_id (demo_update 222 ''!rules please'') = 5"
          "message_id (demo_update 222 ''!rules please'') = 7"
    by (simp_all add: demo_update_def)
  from command_table_read_your_write
         [of "COMMANDS demo_state" "''!rules''" "''Be kind''"
             demo_state "demo_update 111 ''/add_command !rules Be kind''"
             "[''!rules'', ''Be'', ''kind'']" "demo_update 222 ''!rules please''" "[''please'']"]
  show ?thesis
    using a m w n f by simp
qed

text \<open>
  C9. For a sender who is not an administrator, the first thing \<^verbatim>\<open>add_command\<close>,
  \<^verbatim>\<open>remove_command\<close> and \<^verbatim>\<open>assign_role\<close> do is return: for every argument list, of any
  length and with any content, the handler returns (it does not raise), the state is
  unchanged and the single effect is the warning in the log. No usage line is sent.
\<close>

theorem admin_check_precedes_argument_checks:
  "\<not> is_admin s (effective_user_id u) \<Longrightarrow>
     add_command s u args =
       Returned s [LogWarning (''Unauthorized add_command attempt by user '' @
                               py_str (effective_user_id u))] \<and>
     remove_command s u args =
       Returned s [LogWarning (''Unauthorized remove_command attempt by user '' @
                               py_str (effective_user_id u))] \<and>
     assign_role s u args =
       Returned s [LogWarning (''Unauthorized assign_role attempt by user '' @
                               py_str (effective_user_id u))]"
  by (simp add: add_command_def remove_command_def assign_role_def)

theorem admin_check_precedes_argument_checks_witness:
  "\<not> is_admin demo_state (effective_user_id (demo_update 222 ''/assign admin add abc'')) \<and>
   add_command demo_state (demo_update 222 ''/assign admin add abc'') [] =
     Returned demo_state [LogWarning ''Unauthorized add_command attempt by user 222''] \<and>
   remove_command demo_state (demo_update 222 ''/assign admin add abc'') [] =
     Returned demo_state [LogWarning ''Unauthorized remove_command attempt by user 222''] \<and>
   assign_role demo_state (demo_update 222 ''/assign admin add abc'')
       [''admin'', ''add'', ''abc''] =
     Returned demo_state [LogWarning ''Unauthorized assign_role attempt by user 222'']"
proof -
  have a: "\<not> is_admin demo_state (effective_user_id (demo_update 222 ''/assign admin add abc''))"
    by (simp add: is_admin_def demo_state_def demo_update_def)
  have n: "py_str (effective_user_id (demo_update 222 ''/assign admin add abc'')) = ''222''"
    by code_simp
  from admin_check_precedes_argument_checks [OF a, of "[]"]
       admin_check_precedes_argument_checks [OF a, of "[''admin'', ''add'', ''abc'']"]
  show ?thesis
    using a n by simp
qed

text \<open>
  C10. For an administrator or moderator whose message splits into a first word and a
  rest, what \<^verbatim>\<open>handle_command\<close> does is fixed by the first word alone, and the rest
  appears in no effect: when the word is not a key of the table the handler returns with
  no effect at all (no reply, no deletion); when it is a key with a response that is not
  empty, that response is sent, the message is deleted and the execution is logged; a key
  with an empty response behaves like a missing key. The state is unchanged throughout.
\<close>

theorem handle_command_first_word_only:
  assumes "is_admin s (effective_user_id u) \<or> is_moderator s (effective_user_id u)"
      and "py_split (message_text u) = tok # rest"
  shows "(dict_get (COMMANDS s) tok = None \<longrightarrow> handle_command s u = Returned s []) \<and>
         (dict_get (COMMANDS s) tok = Some [] \<longrightarrow> handle_command s u = Returned s []) \<and>
         (\<forall>r. dict_get (COMMANDS s) tok = Some r \<and> r \<noteq> [] \<longrightarrow>
            handle_command s u =
              Returned s
                [SendMessage (effective_chat_id u) r,
                 DeleteMessage (effective_chat_id u) (message_id u),
                 LogInfo (''Command '' @ tok @ '' executed by user '' @
                          py_str (effective_user_id u))])"
  using assms by (auto simp add: handle_command_def)

theorem handle_command_first_word_only_witness:
  "is_moderator demo_state (effective_user_id (demo_update 222 ''!greet  you two'')) \<and>
   py_split (message_text (demo_update 222 ''!greet  you two'')) = [''!greet'', ''you'', ''two''] \<and>
   dict_get (COMMANDS demo_state) ''!greet'' = Some ''Hello there'' \<and>
   handle_command demo_state (demo_update 222 ''!greet  you two'') =
     Returned demo_state
       [SendMessage 5 ''Hello there'', DeleteMessage 5 7,
        LogInfo ''Command !greet executed by user 222''] \<and>
   py_split (message_text (demo_update 222 ''!bye now'')) = [''!bye'', ''now''] \<and>
   dict_get (COMMANDS demo_state) ''!bye'' = None \<and>
   handle_command demo_state (demo_update 222 ''!bye now'') = Returned demo_state []"
proof -
  have m: "is_admin demo_state (effective_user_id (demo_update 222 t)) \<or>
           is_moderator demo_state (effective_user_id (demo_update 222 t))" for t
    by (simp add: is_moderator_def demo_state_def demo_update_def)
  have m': "is_moderator demo_state (effective_user_id (demo_update 222 ''!greet  you two''))"
    by (simp add: is_moderator_def demo_state_def demo_update_def)
  have w1: "py_split (message_text (demo_update 222 ''!greet  you two'')) =
              [''!greet'', ''you'', ''two'']"
    by (simp add: py_split_def py_isspace_def demo_update_def)
  have w2: "py_split (message_text (demo_update 222 ''!bye now'')) = [''!bye'', ''now'']"
    by (simp add: py_split_def py_isspace_def demo_update_def)
  have g: "dict_get (COMMANDS demo_state) ''!greet'' = Some ''Hello there''"
          "dict_get (COMMANDS demo_state) ''!bye'' = None"
    by (simp_all add: demo_state_def)
  have n: "py_str (effective_user_id (demo_update 222 t)) = ''222''" for t
    by (simp add: demo_update_def) code_simp
  have f: "effective_chat_id (demo_update 222 t) = 5" "message_id (demo_update 222 t) = 7" for t
    by (simp_all add: demo_update_def)
  from handle_command_first_word_only [OF m w1] handle_command_first_word_only [OF m w2]
  show ?thesis
    using m' w1 w2 g n f by simp
qed

end
